theory Spec2Isabelle
  imports Complex_Main
begin

section \<open>Data model\<close>

text \<open>
  The values that cross the HTTP boundary are JSON documents. The client never inspects
  a response body, so the body is kept as an untyped JSON value; an object is an
  association list in key order. The numbers of the client are literals (78, 0.65, ...)
  that are only stored, never computed with, so they are kept as exact rationals.
\<close>

datatype json =
    JNull
  | JBool bool
  | JNum rat
  | JStr string
  | JArr "json list"
  | JObj "(string \<times> json) list"

text \<open>Property access \<open>o.k\<close>: \<open>None\<close> where JavaScript yields \<open>undefined\<close>.\<close>

fun field :: "string \<Rightarrow> json \<Rightarrow> json option" where
  "field k (JObj kvs) = map_of kvs k"
| "field k v = None"

text \<open>The browser's \<open>File\<close>: the two properties the code reads.\<close>

record File =
  name :: string
  type :: string

text \<open>
  A rejection reason of an axios call. The instance is created with a base URL and a
  timeout only, so the defaults of axios decide how a request settles: it is rejected
  when no answer arrives, when the timeout expires and when the status of the answer is
  outside 2xx. A 2xx answer resolves, whatever its body: a body that does not parse as
  JSON is handed over as the raw text (\<open>data\<close> is then a \<open>JStr\<close>), it is not a rejection.
\<close>

datatype js_error =
    NetworkError
  | Timeout
  | BadStatus nat

text \<open>A settled promise.\<close>

datatype 'a promise = Resolved 'a | Rejected js_error

record response =
  status :: nat
  data :: json

text \<open>
  Everything one run observes from outside: how the HTTP request settles, how many
  periods of the 200 ms interval pass before it settles, and the two readings of the
  clock taken by \<open>Date.now()\<close> and \<open>new Date()\<close> (milliseconds since the epoch).
\<close>

record env =
  outcome :: "response promise"
  elapsed :: nat
  date_now :: int
  new_date :: int

text \<open>What the run does to its surroundings, in the order it happens.\<close>

datatype event =
    HttpPost string File
  | HttpGet string
  | ConsoleError string
  | ToastError string
  | ToastSuccess string
  | SetUploading bool
  | SetUploadProgress int
  | SetInterval nat
  | Tick
  | ClearInterval
  | OnAnalysisComplete json
  | Navigate string

text \<open>
  The state: the two \<open>useState\<close> cells of \<open>VideoUpload\<close>, the \<open>currentAnalysis\<close> cell of
  \<open>App\<close> (\<open>null\<close> at first), whether the interval behind the handle \<open>progressInterval\<close>
  is still scheduled, and the log of events. A state setter takes effect where the
  program calls it: the cells hold the values the calls give them, in program order,
  whatever React renders of them. The dropzone is disabled while \<open>uploading\<close> holds, so
  one submission runs at a time and one interval handle exists at a time.
\<close>

record world =
  uploading :: bool
  uploadProgress :: int
  currentAnalysis :: json
  progressInterval :: bool
  events :: "event list"

definition emit :: "event \<Rightarrow> world \<Rightarrow> world" where
  "emit e w = w\<lparr>events := events w @ [e]\<rparr>"

section \<open>The interval callback and the event loop\<close>

text \<open>
  One firing of the interval set up by \<open>onDrop\<close>:
  \<^verbatim>\<open>setUploadProgress(prev => { if (prev >= 90) { clearInterval(progressInterval); return 90; }
                                return prev + 10; })\<close>
  A cleared interval does not fire.
\<close>

definition setUploading :: "bool \<Rightarrow> world \<Rightarrow> world" where
  "setUploading b w = emit (SetUploading b) (w\<lparr>uploading := b\<rparr>)"

definition setUploadProgress :: "int \<Rightarrow> world \<Rightarrow> world" where
  "setUploadProgress v w = emit (SetUploadProgress v) (w\<lparr>uploadProgress := v\<rparr>)"

definition clearInterval :: "world \<Rightarrow> world" where
  "clearInterval w = emit ClearInterval (w\<lparr>progressInterval := False\<rparr>)"

definition setInterval :: "nat \<Rightarrow> world \<Rightarrow> world" where
  "setInterval ms w = emit (SetInterval ms) (w\<lparr>progressInterval := True\<rparr>)"

definition tick :: "world \<Rightarrow> world" where
  "tick w =
     (if progressInterval w then
        (let w1 = emit Tick w in
         if uploadProgress w1 \<ge> 90 then setUploadProgress 90 (clearInterval w1)
         else setUploadProgress (uploadProgress w1 + 10) w1)
      else w)"

text \<open>While a request is pending the event loop runs the timers: \<open>n\<close> periods pass.\<close>

fun run_timers :: "nat \<Rightarrow> world \<Rightarrow> world" where
  "run_timers 0 w = w"
| "run_timers (Suc n) w = run_timers n (tick w)"

section \<open>The analysis client\<close>

text \<open>
  \<open>Number.prototype.toString\<close> on an integer: its decimal digits, after a minus sign when
  it is negative.
\<close>

definition digit :: "int \<Rightarrow> char" where
  "digit d = char_of (48 + d)"

function digits :: "int \<Rightarrow> string" where
  "digits n = (if n < 10 then [digit n] else digits (n div 10) @ [digit (n mod 10)])"
  by pat_completeness auto
termination
  by (relation "measure nat") auto

declare digits.simps [simp del]

definition toString :: "int \<Rightarrow> string" where
  "toString n = (if n < 0 then ''-'' @ digits (- n) else digits n)"

text \<open>
  \<open>Date.prototype.toISOString\<close> on a time value of \<open>ms\<close> milliseconds since the epoch:
  \<open>YYYY-MM-DDTHH:mm:ss.sssZ\<close> in UTC, the year written with a sign and six digits
  outside 0 to 9999. The day count is turned into a civil date of the proleptic
  Gregorian calendar; the computation lets the year start in March, and \<open>div\<close> and
  \<open>mod\<close> on \<open>int\<close> round down, which is what days before the epoch need.
\<close>

definition pad :: "nat \<Rightarrow> int \<Rightarrow> string" where
  "pad width n = replicate (width - length (digits n)) (CHR ''0'') @ digits n"

definition civil_from_days :: "int \<Rightarrow> int \<times> int \<times> int" where
  "civil_from_days z =
     (let z1 = z + 719468;
          era = z1 div 146097;
          doe = z1 mod 146097;
          yoe = (doe - doe div 1460 + doe div 36524 - doe div 146096) div 365;
          doy = doe - (365 * yoe + yoe div 4 - yoe div 100);
          mp = (5 * doy + 2) div 153;
          d = doy - (153 * mp + 2) div 5 + 1;
          m = (if mp < 10 then mp + 3 else mp - 9);
          y = yoe + era * 400 + (if m \<le> 2 then 1 else 0)
      in (y, m, d))"

definition toISOString :: "int \<Rightarrow> string" where
  "toISOString ms =
     (let (y, m, d) = civil_from_days (ms div 86400000);
          t = ms mod 86400000
      in (if 0 \<le> y \<and> y \<le> 9999 then pad 4 y
          else (if y < 0 then ''-'' else ''+'') @ pad 6 (abs y))
         @ ''-'' @ pad 2 m @ ''-'' @ pad 2 d
         @ ''T'' @ pad 2 (t div 3600000) @ '':'' @ pad 2 (t div 60000 mod 60)
         @ '':'' @ pad 2 (t div 1000 mod 60) @ ''.'' @ pad 3 (t mod 1000) @ ''Z'')"

text \<open>The object literal returned from the \<open>catch\<close> block of \<open>analyzeVideo\<close>.\<close>

definition mock_analysis :: json where
  "mock_analysis = JObj
     [(''overall_score'', JNum 78),
      (''confidence_level'', JNum 82),
      (''engagement_score'', JNum 75),
      (''speech_clarity'', JNum 80),
      (''body_language'', JNum 76),
      (''emotions'', JObj
         [(''confident'', JNum (65 / 100)),
          (''nervous'', JNum (15 / 100)),
          (''enthusiastic'', JNum (75 / 100)),
          (''professional'', JNum (85 / 100))]),
      (''transcript'', JStr ''Thank you for joining me today. I'm excited to present our new product solution that will revolutionize how your team approaches sales...''),
      (''coaching_feedback'', JObj
         [(''strengths'', JArr
             [JStr ''Strong opening with clear enthusiasm'',
              JStr ''Good eye contact maintained throughout'',
              JStr ''Professional tone and delivery'',
              JStr ''Clear articulation of key benefits'']),
          (''improvements'', JArr
             [JStr ''Could reduce filler words ('um', 'uh')'',
              JStr ''Try varying vocal pace for emphasis'',
              JStr ''Consider more dynamic hand gestures'',
              JStr ''Practice smoother transitions between points'']),
          (''recommendations'', JArr
             [JStr ''Practice the opening 30 seconds to build confidence'',
              JStr ''Record yourself to identify speech patterns'',
              JStr ''Use pause and emphasis techniques'',
              JStr ''Rehearse with a timer to manage pacing''])]),
      (''metrics'', JObj
         [(''speech_rate'', JNum 165),
          (''pause_frequency'', JNum 12),
          (''filler_words'', JNum 8),
          (''gesture_frequency'', JNum 23),
          (''eye_contact_percentage'', JNum 78)])]"

definition mock_data :: "env \<Rightarrow> File \<Rightarrow> json" where
  "mock_data e file = JObj
     [(''id'', JStr (toString (date_now e))),
      (''filename'', JStr (name file)),
      (''analysis'', mock_analysis),
      (''created_at'', JStr (toISOString (new_date e)))]"

text \<open>
  \<open>analyzeVideo\<close>: the POST is issued, the caller is suspended until it settles (the
  timers run meanwhile), and the \<open>try\<close>/\<open>catch\<close> turns either outcome into a value.
\<close>

definition analyzeVideo :: "env \<Rightarrow> File \<Rightarrow> world \<Rightarrow> json promise \<times> world" where
  "analyzeVideo e file w =
     (let w1 = emit (HttpPost ''/api/v1/videos/analyze'' file) w;
          w2 = run_timers (elapsed e) w1
      in case outcome e of
           Resolved response \<Rightarrow> (Resolved (data response), w2)
         | Rejected error \<Rightarrow> (Resolved (mock_data e file), emit (ConsoleError ''API Error:'') w2))"



section \<open>The upload controller\<close>

text \<open>\<open>String.prototype.startsWith\<close>.\<close>

definition startsWith :: "string \<Rightarrow> string \<Rightarrow> bool" where
  "startsWith s p = (take (length p) s = p)"

text \<open>
  The collaborators of \<open>onDrop\<close>: the two toasts, the router's \<open>navigate\<close>, and the
  \<open>onAnalysisComplete\<close> property, which \<open>App\<close> binds to \<open>setCurrentAnalysis\<close>.
\<close>

definition toast_error :: "string \<Rightarrow> world \<Rightarrow> world" where
  "toast_error msg w = emit (ToastError msg) w"

definition toast_success :: "string \<Rightarrow> world \<Rightarrow> world" where
  "toast_success msg w = emit (ToastSuccess msg) w"

definition navigate :: "string \<Rightarrow> world \<Rightarrow> world" where
  "navigate path w = emit (Navigate path) w"

definition onAnalysisComplete :: "json \<Rightarrow> world \<Rightarrow> world" where
  "onAnalysisComplete result w = emit (OnAnalysisComplete result) (w\<lparr>currentAnalysis := result\<rparr>)"

text \<open>
  \<open>onDrop\<close>. \<open>acceptedFiles[0]\<close> of an empty array is \<open>undefined\<close>, and a \<open>File\<close> is never
  falsy. The \<open>try\<close> block runs up to the \<open>await\<close>; a resolved promise continues it, a
  rejected one enters \<open>catch\<close>; \<open>finally\<close> follows both.
\<close>

definition onDrop :: "env \<Rightarrow> File list \<Rightarrow> world \<Rightarrow> world" where
  "onDrop e acceptedFiles w =
     (case acceptedFiles of
        [] \<Rightarrow> w
      | file # rest \<Rightarrow>
          if \<not> startsWith (type file) ''video/'' then
            toast_error ''Please upload a video file'' w
          else
            let w1 = setUploadProgress 0 (setUploading True w);
                w2 = setInterval 200 w1;
                (settled, w3) = analyzeVideo e file w2;
                w4 = (case settled of
                        Resolved result \<Rightarrow>
                          navigate ''/results''
                            (onAnalysisComplete result
                              (toast_success ''Video analyzed successfully!''
                                (setUploadProgress 100 (clearInterval w3))))
                      | Rejected error \<Rightarrow>
                          toast_error ''Analysis failed. Please try again.''
                            (emit (ConsoleError ''Upload failed:'') w3))
            in setUploadProgress 0 (setUploading False w4))"

section \<open>Observations on the event log\<close>

text \<open>The events one call of \<open>onDrop\<close> adds to the log.\<close>

definition emitted :: "env \<Rightarrow> File list \<Rightarrow> world \<Rightarrow> event list" where
  "emitted e acceptedFiles w = drop (length (events w)) (events (onDrop e acceptedFiles w))"

text \<open>The successive values given to the progress cell.\<close>

fun progress_values :: "event list \<Rightarrow> int list" where
  "progress_values [] = []"
| "progress_values (SetUploadProgress v # es) = v # progress_values es"
| "progress_values (e # es) = progress_values es"

text \<open>The value of the progress cell at each publication, the cell holding \<open>p\<close> at first.\<close>

fun progress_at_publication :: "int \<Rightarrow> event list \<Rightarrow> int list" where
  "progress_at_publication p [] = []"
| "progress_at_publication p (SetUploadProgress v # es) = progress_at_publication v es"
| "progress_at_publication p (OnAnalysisComplete r # es) = p # progress_at_publication p es"
| "progress_at_publication p (e # es) = progress_at_publication p es"

fun timer_event :: "event \<Rightarrow> bool" where
  "timer_event Tick = True"
| "timer_event ClearInterval = True"
| "timer_event (SetUploadProgress v) = True"
| "timer_event e = False"

fun is_publication :: "event \<Rightarrow> bool" where
  "is_publication (OnAnalysisComplete r) = True"
| "is_publication e = False"

fun is_toast :: "event \<Rightarrow> bool" where
  "is_toast (ToastError msg) = True"
| "is_toast (ToastSuccess msg) = True"
| "is_toast e = False"

fun is_navigation :: "event \<Rightarrow> bool" where
  "is_navigation (Navigate path) = True"
| "is_navigation e = False"

fun is_request :: "event \<Rightarrow> bool" where
  "is_request (HttpPost url file) = True"
| "is_request (HttpGet url) = True"
| "is_request e = False"

text \<open>The value the promise of \<open>analyzeVideo\<close> settles with (\<open>analyzeVideo_value\<close> below).\<close>

definition settled_value :: "env \<Rightarrow> File \<Rightarrow> json" where
  "settled_value e file =
     (case outcome e of Resolved response \<Rightarrow> data response | Rejected err \<Rightarrow> mock_data e file)"

text \<open>
  The shape the specification asks of a published result: an \<open>analysis\<close> object with the
  five percentage fields, a non-empty \<open>emotions\<close> mapping and the three lists of
  \<open>coaching_feedback\<close>, under the keys the display components read.
\<close>

definition present :: "string \<Rightarrow> json \<Rightarrow> bool" where
  "present k v = (field k v \<noteq> None)"

definition list_present :: "string \<Rightarrow> json \<Rightarrow> bool" where
  "list_present k v = (case field k v of Some (JArr xs) \<Rightarrow> True | _ \<Rightarrow> False)"

definition complete_report :: "json \<Rightarrow> bool" where
  "complete_report result =
     (case field ''analysis'' result of
        None \<Rightarrow> False
      | Some a \<Rightarrow>
          present ''overall_score'' a \<and> present ''confidence_level'' a
          \<and> present ''engagement_score'' a \<and> present ''speech_clarity'' a
          \<and> present ''body_language'' a
          \<and> (case field ''emotions'' a of Some (JObj kvs) \<Rightarrow> kvs \<noteq> [] | _ \<Rightarrow> False)
          \<and> (case field ''coaching_feedback'' a of
                None \<Rightarrow> False
              | Some cf \<Rightarrow>
                  list_present ''strengths'' cf \<and> list_present ''improvements'' cf
                  \<and> list_present ''recommendations'' cf))"

section \<open>Sample inputs\<close>

text \<open>The state of a freshly mounted application, two files and four environments.\<close>

definition idle_world :: world where
  "idle_world = \<lparr>uploading = False, uploadProgress = 0, currentAnalysis = JNull,
                  progressInterval = False, events = []\<rparr>"

definition sample_video :: File where
  "sample_video = \<lparr>name = ''pitch.mp4'', type = ''video/mp4''\<rparr>"

definition sample_image :: File where
  "sample_image = \<lparr>name = ''slide.png'', type = ''image/png''\<rparr>"

definition timeout_env :: env where
  "timeout_env = \<lparr>outcome = Rejected Timeout, elapsed = 12,
                   date_now = 1700000000000, new_date = 1700000000001\<rparr>"

definition later_env :: env where
  "later_env = \<lparr>outcome = Rejected Timeout, elapsed = 12,
                 date_now = 1700000086400, new_date = 1700000086401\<rparr>"

definition server_body :: json where
  "server_body = JObj [(''id'', JStr ''a-17''), (''filename'', JStr ''pitch.mp4''),
                       (''createdAt'', JStr ''2024-05-06T07:08:09.000Z'')]"

definition malformed_env :: env where
  "malformed_env = \<lparr>outcome = Resolved \<lparr>status = 200, data = JStr ''<html>Bad Gateway</html>''\<rparr>,
                     elapsed = 0, date_now = 1700000000000, new_date = 1700000000001\<rparr>"

definition ok_env :: env where
  "ok_env = \<lparr>outcome = Resolved \<lparr>status = 200, data = server_body\<rparr>, elapsed = 3,
              date_now = 1700000000000, new_date = 1700000000001\<rparr>"

section \<open>The timer\<close>

lemma events_tick:
  "events (tick w) = events w @
     (if progressInterval w then
        (if uploadProgress w \<ge> 90 then [Tick, ClearInterval, SetUploadProgress 90]
         else [Tick, SetUploadProgress (uploadProgress w + 10)])
      else [])"
  by (simp add: tick_def emit_def setUploadProgress_def clearInterval_def Let_def)

lemma tick_frame:
  "uploading (tick w) = uploading w" "currentAnalysis (tick w) = currentAnalysis w"
  by (simp_all add: tick_def emit_def setUploadProgress_def clearInterval_def Let_def)

lemma uploadProgress_tick:
  "uploadProgress (tick w) =
     (if progressInterval w then (if uploadProgress w \<ge> 90 then 90 else uploadProgress w + 10)
      else uploadProgress w)"
  by (simp add: tick_def emit_def setUploadProgress_def clearInterval_def Let_def)

lemma progress_values_append:
  "progress_values (xs @ ys) = progress_values xs @ progress_values ys"
  by (induction xs rule: progress_values.induct) simp_all

lemma tick_idle: "\<not> progressInterval w \<Longrightarrow> tick w = w"
  by (simp add: tick_def)

lemma run_timers_idle: "\<not> progressInterval w \<Longrightarrow> run_timers n w = w"
  by (induction n) (simp_all add: tick_idle)

lemma run_timers_frame:
  "uploading (run_timers n w) = uploading w \<and> currentAnalysis (run_timers n w) = currentAnalysis w"
  by (induction n arbitrary: w) (simp_all add: tick_frame)

lemma run_timers_events:
  assumes "0 \<le> uploadProgress w" "uploadProgress w \<le> 90" "10 dvd uploadProgress w"
  shows "\<exists>evs. events (run_timers n w) = events w @ evs \<and> list_all timer_event evs
           \<and> sorted (uploadProgress w # progress_values evs)
           \<and> (\<forall>v \<in> set (progress_values evs). v \<le> 90)"
  using assms
proof (induction n arbitrary: w)
  case 0
  then show ?case by simp
next
  case (Suc n)
  show ?case
  proof (cases "progressInterval w")
    case False
    then show ?thesis by (simp add: tick_idle run_timers_idle)
  next
    case True
    let ?p = "uploadProgress w"
    let ?q = "if ?p \<ge> 90 then 90 else ?p + 10"
    have q: "uploadProgress (tick w) = ?q" using True by (simp add: uploadProgress_tick)
    have q0: "0 \<le> ?q" "?q \<le> 90" "10 dvd ?q" "?p \<le> ?q"
      using Suc.prems by auto
    from Suc.IH [of "tick w"] q q0
    obtain evs where evs: "events (run_timers n (tick w)) = events (tick w) @ evs"
      "list_all timer_event evs" "sorted (?q # progress_values evs)"
      "\<forall>v \<in> set (progress_values evs). v \<le> 90"
      by auto
    let ?t = "if ?p \<ge> 90 then [Tick, ClearInterval, SetUploadProgress 90]
              else [Tick, SetUploadProgress (?p + 10)]"
    have t: "events (tick w) = events w @ ?t" using True by (simp add: events_tick)
    have pv: "progress_values (?t @ evs) = ?q # progress_values evs" by simp
    have "events (run_timers (Suc n) w) = events w @ (?t @ evs)"
      using evs(1) t by simp
    moreover have "list_all timer_event (?t @ evs)" using evs(2) by simp
    moreover have "sorted (?p # progress_values (?t @ evs))"
      unfolding pv using evs(3) q0(4) by auto
    moreover have "\<forall>v \<in> set (progress_values (?t @ evs)). v \<le> 90"
      unfolding pv using evs(4) q0(2) by simp
    ultimately show ?thesis by blast
  qed
qed


section \<open>What the client and the controller do to the world\<close>

lemma analyzeVideo_value: "fst (analyzeVideo e file w) = Resolved (settled_value e file)"
  by (simp add: analyzeVideo_def settled_value_def Let_def split: promise.split)

lemma analyzeVideo_world:
  assumes "uploadProgress w = 0"
  shows "\<exists>evs. events (snd (analyzeVideo e file w))
              = events w @ HttpPost ''/api/v1/videos/analyze'' file # evs
           \<and> list_all (\<lambda>ev. timer_event ev \<or> ev = ConsoleError ''API Error:'') evs
           \<and> sorted (0 # progress_values evs)
           \<and> (\<forall>v \<in> set (progress_values evs). v \<le> 90)
           \<and> uploading (snd (analyzeVideo e file w)) = uploading w
           \<and> currentAnalysis (snd (analyzeVideo e file w)) = currentAnalysis w"
proof -
  let ?w1 = "emit (HttpPost ''/api/v1/videos/analyze'' file) w"
  let ?w2 = "run_timers (elapsed e) ?w1"
  have p: "uploadProgress ?w1 = 0" using assms by (simp add: emit_def)
  from run_timers_events [of ?w1 "elapsed e"] p
  obtain evs where evs: "events ?w2 = events ?w1 @ evs" "list_all timer_event evs"
    "sorted (0 # progress_values evs)" "\<forall>v \<in> set (progress_values evs). v \<le> 90"
    by auto
  have fr: "uploading ?w2 = uploading w" "currentAnalysis ?w2 = currentAnalysis w"
    using run_timers_frame [of "elapsed e" ?w1] by (simp_all add: emit_def)
  have e1: "events ?w1 = events w @ [HttpPost ''/api/v1/videos/analyze'' file]"
    by (simp add: emit_def)
  show ?thesis
  proof (cases "outcome e")
    case (Resolved response)
    then have "snd (analyzeVideo e file w) = ?w2" by (simp add: analyzeVideo_def Let_def)
    moreover have "list_all (\<lambda>ev. timer_event ev \<or> ev = ConsoleError ''API Error:'') evs"
      using evs(2) by (simp add: list_all_iff)
    ultimately show ?thesis using evs e1 fr by auto
  next
    case (Rejected err)
    then have s: "snd (analyzeVideo e file w) = emit (ConsoleError ''API Error:'') ?w2"
      by (simp add: analyzeVideo_def Let_def)
    let ?evs = "evs @ [ConsoleError ''API Error:'']"
    have "events (snd (analyzeVideo e file w))
            = events w @ HttpPost ''/api/v1/videos/analyze'' file # ?evs"
      unfolding s using evs(1) e1 by (simp add: emit_def)
    moreover have "list_all (\<lambda>ev. timer_event ev \<or> ev = ConsoleError ''API Error:'') ?evs"
      using evs(2) by (simp add: list_all_iff)
    moreover have "progress_values ?evs = progress_values evs"
      by (simp add: progress_values_append)
    moreover have "uploading (snd (analyzeVideo e file w)) = uploading w"
      "currentAnalysis (snd (analyzeVideo e file w)) = currentAnalysis w"
      unfolding s using fr by (simp_all add: emit_def)
    ultimately show ?thesis using evs(3,4) by auto
  qed
qed

lemma onDrop_accepted:
  assumes "startsWith (type file) ''video/''"
  shows "\<exists>evs. events (onDrop e (file # rest) w)
              = events w @ [SetUploading True, SetUploadProgress 0, SetInterval 200,
                            HttpPost ''/api/v1/videos/analyze'' file] @ evs
                  @ [ClearInterval, SetUploadProgress 100,
                     ToastSuccess ''Video analyzed successfully!'',
                     OnAnalysisComplete (settled_value e file), Navigate ''/results'',
                     SetUploading False, SetUploadProgress 0]
           \<and> list_all (\<lambda>ev. timer_event ev \<or> ev = ConsoleError ''API Error:'') evs
           \<and> sorted (0 # progress_values evs)
           \<and> (\<forall>v \<in> set (progress_values evs). v \<le> 90)"
    and "uploading (onDrop e (file # rest) w) = False"
    and "uploadProgress (onDrop e (file # rest) w) = 0"
    and "progressInterval (onDrop e (file # rest) w) = False"
    and "currentAnalysis (onDrop e (file # rest) w) = settled_value e file"
proof -
  let ?w2 = "setInterval 200 (setUploadProgress 0 (setUploading True w))"
  let ?a = "analyzeVideo e file ?w2"
  have a: "?a = (Resolved (settled_value e file), snd ?a)"
    using analyzeVideo_value [of e "file" ?w2] by (cases ?a) simp
  have od: "onDrop e (file # rest) w
      = setUploadProgress 0 (setUploading False
          (navigate ''/results'' (onAnalysisComplete (settled_value e file)
             (toast_success ''Video analyzed successfully!''
                (setUploadProgress 100 (clearInterval (snd ?a)))))))"
    using assms by (simp add: onDrop_def Let_def) (subst a, simp)
  have p: "uploadProgress ?w2 = 0"
    by (simp add: setInterval_def setUploadProgress_def setUploading_def emit_def)
  have e2: "events ?w2 = events w @ [SetUploading True, SetUploadProgress 0, SetInterval 200]"
    by (simp add: setInterval_def setUploadProgress_def setUploading_def emit_def)
  have tail: "\<And>x r. events (setUploadProgress 0 (setUploading False
          (navigate ''/results'' (onAnalysisComplete r
             (toast_success ''Video analyzed successfully!''
                (setUploadProgress 100 (clearInterval x)))))))
       = events x @ [ClearInterval, SetUploadProgress 100,
                     ToastSuccess ''Video analyzed successfully!'',
                     OnAnalysisComplete r, Navigate ''/results'',
                     SetUploading False, SetUploadProgress 0]"
    by (simp add: setUploadProgress_def setUploading_def navigate_def
        onAnalysisComplete_def toast_success_def clearInterval_def emit_def)
  from analyzeVideo_world [OF p, of e "file"]
  obtain evs where evs:
    "events (snd ?a) = events ?w2 @ HttpPost ''/api/v1/videos/analyze'' file # evs"
    "list_all (\<lambda>ev. timer_event ev \<or> ev = ConsoleError ''API Error:'') evs"
    "sorted (0 # progress_values evs)" "\<forall>v \<in> set (progress_values evs). v \<le> 90"
    by blast
  have "events (onDrop e (file # rest) w)
          = events w @ [SetUploading True, SetUploadProgress 0, SetInterval 200,
                        HttpPost ''/api/v1/videos/analyze'' file] @ evs
              @ [ClearInterval, SetUploadProgress 100,
                 ToastSuccess ''Video analyzed successfully!'',
                 OnAnalysisComplete (settled_value e file), Navigate ''/results'',
                 SetUploading False, SetUploadProgress 0]"
    unfolding od tail evs(1) e2 by simp
  with evs(2-4)
  show "\<exists>evs. events (onDrop e (file # rest) w)
              = events w @ [SetUploading True, SetUploadProgress 0, SetInterval 200,
                            HttpPost ''/api/v1/videos/analyze'' file] @ evs
                  @ [ClearInterval, SetUploadProgress 100,
                     ToastSuccess ''Video analyzed successfully!'',
                     OnAnalysisComplete (settled_value e file), Navigate ''/results'',
                     SetUploading False, SetUploadProgress 0]
           \<and> list_all (\<lambda>ev. timer_event ev \<or> ev = ConsoleError ''API Error:'') evs
           \<and> sorted (0 # progress_values evs)
           \<and> (\<forall>v \<in> set (progress_values evs). v \<le> 90)"
    by blast
  show "uploading (onDrop e (file # rest) w) = False"
    "uploadProgress (onDrop e (file # rest) w) = 0"
    "progressInterval (onDrop e (file # rest) w) = False"
    "currentAnalysis (onDrop e (file # rest) w) = settled_value e file"
    unfolding od
    by (simp_all add: setUploadProgress_def setUploading_def navigate_def
        onAnalysisComplete_def toast_success_def clearInterval_def emit_def)
qed

section \<open>The event log of an accepted submission\<close>

lemma quiet_events:
  assumes "list_all (\<lambda>ev. timer_event ev \<or> ev = ConsoleError ''API Error:'') evs"
  shows "filter is_publication evs = []" "filter is_toast evs = []"
    "filter is_navigation evs = []" "filter is_request evs = []"
    "SetUploading b \<notin> set evs"
  using assms by (induction evs; auto elim: timer_event.elims)+

lemma emitted_accepted:
  assumes "startsWith (type file) ''video/''"
  shows "\<exists>evs. emitted e (file # rest) w
              = [SetUploading True, SetUploadProgress 0, SetInterval 200,
                 HttpPost ''/api/v1/videos/analyze'' file] @ evs
                  @ [ClearInterval, SetUploadProgress 100,
                     ToastSuccess ''Video analyzed successfully!'',
                     OnAnalysisComplete (settled_value e file), Navigate ''/results'',
                     SetUploading False, SetUploadProgress 0]
           \<and> list_all (\<lambda>ev. timer_event ev \<or> ev = ConsoleError ''API Error:'') evs
           \<and> sorted (0 # progress_values evs)
           \<and> (\<forall>v \<in> set (progress_values evs). v \<le> 90)"
proof -
  from onDrop_accepted(1) [OF assms, of e rest w] obtain evs where evs:
    "events (onDrop e (file # rest) w)
              = events w @ [SetUploading True, SetUploadProgress 0, SetInterval 200,
                            HttpPost ''/api/v1/videos/analyze'' file] @ evs
                  @ [ClearInterval, SetUploadProgress 100,
                     ToastSuccess ''Video analyzed successfully!'',
                     OnAnalysisComplete (settled_value e file), Navigate ''/results'',
                     SetUploading False, SetUploadProgress 0]"
    "list_all (\<lambda>ev. timer_event ev \<or> ev = ConsoleError ''API Error:'') evs"
    "sorted (0 # progress_values evs)" "\<forall>v \<in> set (progress_values evs). v \<le> 90"
    by blast
  have "emitted e (file # rest) w
              = [SetUploading True, SetUploadProgress 0, SetInterval 200,
                 HttpPost ''/api/v1/videos/analyze'' file] @ evs
                  @ [ClearInterval, SetUploadProgress 100,
                     ToastSuccess ''Video analyzed successfully!'',
                     OnAnalysisComplete (settled_value e file), Navigate ''/results'',
                     SetUploading False, SetUploadProgress 0]"
    unfolding emitted_def evs(1) by simp
  with evs(2-4) show ?thesis by blast
qed

lemma progress_at_publication_skip:
  "filter is_publication xs = [] \<Longrightarrow>
   progress_at_publication p (xs @ SetUploadProgress v # ys) = progress_at_publication v ys"
proof (induction xs arbitrary: p)
  case Nil
  then show ?case by simp
next
  case (Cons a xs)
  then show ?case by (cases a) (simp_all split: if_splits)
qed

section \<open>The decimal rendering is injective\<close>

lemma digit_code: "0 \<le> d \<Longrightarrow> d < 10 \<Longrightarrow> (of_char (digit d) :: int) = 48 + d"
  by (simp add: digit_def)

lemma digit_inj: "0 \<le> a \<Longrightarrow> a < 10 \<Longrightarrow> 0 \<le> b \<Longrightarrow> b < 10 \<Longrightarrow> digit a = digit b \<Longrightarrow> a = b"
proof -
  assume r: "0 \<le> a" "a < 10" "0 \<le> b" "b < 10" and eq: "digit a = digit b"
  have "(of_char (digit a) :: int) = of_char (digit b)" by (simp only: eq)
  then have "48 + a = 48 + b" by (simp only: digit_code [OF r(1,2)] digit_code [OF r(3,4)])
  then show "a = b" by linarith
qed

lemma digit_not_minus: "0 \<le> d \<Longrightarrow> d < 10 \<Longrightarrow> digit d \<noteq> CHR ''-''"
proof
  assume d: "0 \<le> d" "d < 10" and "digit d = CHR ''-''"
  then have "(of_char (digit d) :: int) = of_char (CHR ''-'')" by simp
  with d show False by (simp add: digit_code)
qed

lemma digits_nonempty: "digits n \<noteq> []"
  by (subst digits.simps) simp

lemma digits_no_minus: "0 \<le> n \<Longrightarrow> CHR ''-'' \<notin> set (digits n)"
proof (induction n rule: digits.induct)
  case (1 n)
  show ?case
  proof (cases "n < 10")
    case True
    with "1.prems" show ?thesis
      using digit_not_minus [of n] by (subst digits.simps) auto
  next
    case False
    then have "0 \<le> n div 10" "0 \<le> n mod 10" "n mod 10 < 10" by simp_all
    with False "1.IH" show ?thesis
      using digit_not_minus [of "n mod 10"] by (subst digits.simps) auto
  qed
qed

lemma digits_inj: "0 \<le> a \<Longrightarrow> 0 \<le> b \<Longrightarrow> digits a = digits b \<Longrightarrow> a = b"
proof (induction a arbitrary: b rule: digits.induct)
  case (1 a)
  show ?case
  proof (cases "a < 10")
    case small_a: True
    show ?thesis
    proof (cases "b < 10")
      case True
      with small_a "1.prems" show ?thesis
        using digit_inj [of a b] by (simp add: digits.simps [of a] digits.simps [of b])
    next
      case False
      with small_a "1.prems"(3) have "[digit a] = digits (b div 10) @ [digit (b mod 10)]"
        by (simp add: digits.simps [of a] digits.simps [of b])
      then show ?thesis using digits_nonempty [of "b div 10"] by simp
    qed
  next
    case big_a: False
    show ?thesis
    proof (cases "b < 10")
      case True
      with big_a "1.prems"(3) have "digits (a div 10) @ [digit (a mod 10)] = [digit b]"
        by (simp add: digits.simps [of a] digits.simps [of b])
      then show ?thesis using digits_nonempty [of "a div 10"] by simp
    next
      case False
      with big_a "1.prems"(3)
      have eq: "digits (a div 10) = digits (b div 10)" "digit (a mod 10) = digit (b mod 10)"
        by (simp_all add: digits.simps [of a] digits.simps [of b])
      have "a div 10 = b div 10"
        using "1.IH" [OF big_a _ _ eq(1)] "1.prems"(1,2) by simp
      moreover have "a mod 10 = b mod 10"
        using digit_inj [OF _ _ _ _ eq(2)] by simp
      ultimately show ?thesis by (metis mult_div_mod_eq)
    qed
  qed
qed

lemma toString_inj: "toString a = toString b \<Longrightarrow> a = b"
proof -
  assume eq: "toString a = toString b"
  consider "a < 0" "b < 0" | "a < 0" "0 \<le> b" | "0 \<le> a" "b < 0" | "0 \<le> a" "0 \<le> b"
    by linarith
  then show ?thesis
  proof cases
    case 1
    with eq have "digits (- a) = digits (- b)" by (simp add: toString_def)
    with 1 have "- a = - b" using digits_inj [of "- a" "- b"] by simp
    then show ?thesis by simp
  next
    case 2
    with eq have "CHR ''-'' # digits (- a) = digits b" by (simp add: toString_def)
    then have "CHR ''-'' \<in> set (digits b)" by (metis list.set_intros(1))
    with 2 digits_no_minus [of b] show ?thesis by simp
  next
    case 3
    with eq have "digits a = CHR ''-'' # digits (- b)" by (simp add: toString_def)
    then have "CHR ''-'' \<in> set (digits a)" by (metis list.set_intros(1))
    with 3 digits_no_minus [of a] show ?thesis by simp
  next
    case 4
    with eq show ?thesis using digits_inj [of a b] by (simp add: toString_def)
  qed
qed

section \<open>The claims\<close>

text \<open>
  C1, as stated: whenever the POST fails, a malformed response included, \<open>analyzeVideo\<close>
  resolves with the fallback result, whose \<open>filename\<close> is the name of the input file and
  whose \<open>analysis.overall_score\<close> is 78. It fails for a 200 answer whose body is not JSON:
  axios resolves with the raw text, the \<open>catch\<close> block is not entered, and the raw text is
  what \<open>analyzeVideo\<close> returns.
\<close>

theorem analyzeVideo_malformed_counterexample:
  "fst (analyzeVideo \<lparr>outcome = Resolved \<lparr>status = 200, data = JStr ''<html>Bad Gateway</html>''\<rparr>,
                      elapsed = 0, date_now = 1700000000000, new_date = 1700000000001\<rparr>
          sample_video idle_world) = Resolved (JStr ''<html>Bad Gateway</html>'')
   \<and> field ''filename'' (JStr ''<html>Bad Gateway</html>'') \<noteq> Some (JStr (name sample_video))
   \<and> Option.bind (field ''analysis'' (JStr ''<html>Bad Gateway</html>'')) (field ''overall_score'')
       \<noteq> Some (JNum 78)"
  by (simp add: analyzeVideo_value settled_value_def)

text \<open>
  C1, amended: \<open>analyzeVideo\<close> never rejects. Whenever the POST is rejected (no answer, the
  timeout, a status outside 2xx) the promise resolves with the fallback result, whose
  \<open>filename\<close> is the name of the input file and whose \<open>analysis.overall_score\<close> is 78.
  Whenever the POST resolves, a malformed 2xx body included, the promise resolves with
  the body as axios delivers it.
\<close>

theorem analyzeVideo_resolves_amended:
  "(\<exists>r. fst (analyzeVideo e file w) = Resolved r) \<and>
   (\<forall>err. outcome e = Rejected err \<longrightarrow>
      (\<exists>r. fst (analyzeVideo e file w) = Resolved r
         \<and> field ''filename'' r = Some (JStr (name file))
         \<and> Option.bind (field ''analysis'' r) (field ''overall_score'') = Some (JNum 78))) \<and>
   (\<forall>response. outcome e = Resolved response \<longrightarrow>
      fst (analyzeVideo e file w) = Resolved (data response))"
  by (simp add: analyzeVideo_value settled_value_def mock_data_def mock_analysis_def)

theorem analyzeVideo_resolves_amended_witness:
  "outcome timeout_env = Rejected Timeout
   \<and> (\<exists>r. fst (analyzeVideo timeout_env sample_video idle_world) = Resolved r
      \<and> field ''filename'' r = Some (JStr ''pitch.mp4'')
      \<and> Option.bind (field ''analysis'' r) (field ''overall_score'') = Some (JNum 78))
   \<and> outcome malformed_env = Resolved \<lparr>status = 200, data = JStr ''<html>Bad Gateway</html>''\<rparr>
   \<and> fst (analyzeVideo malformed_env sample_video idle_world)
       = Resolved (JStr ''<html>Bad Gateway</html>'')"
proof -
  have a: "outcome timeout_env = Rejected Timeout" by (simp add: timeout_env_def)
  have b: "outcome malformed_env = Resolved \<lparr>status = 200, data = JStr ''<html>Bad Gateway</html>''\<rparr>"
    by (simp add: malformed_env_def)
  have n: "name sample_video = ''pitch.mp4''" by (simp add: sample_video_def)
  from analyzeVideo_resolves_amended [of timeout_env sample_video idle_world]
    analyzeVideo_resolves_amended [of malformed_env sample_video idle_world] a b
  show ?thesis unfolding n by auto
qed

text \<open>
  C2. A dropped file whose MIME type does not start with \<open>video/\<close> is rejected: the only
  effect of \<open>onDrop\<close> is the error toast. No request is issued, and the uploading flag,
  the progress value and the current-analysis slot keep their values.
\<close>

theorem onDrop_rejects_non_video:
  assumes "\<not> startsWith (type file) ''video/''"
  shows "onDrop e (file # rest) w = w\<lparr>events := events w @ [ToastError ''Please upload a video file'']\<rparr>
       \<and> emitted e (file # rest) w = [ToastError ''Please upload a video file'']
       \<and> filter is_request (emitted e (file # rest) w) = []
       \<and> uploading (onDrop e (file # rest) w) = uploading w
       \<and> uploadProgress (onDrop e (file # rest) w) = uploadProgress w
       \<and> currentAnalysis (onDrop e (file # rest) w) = currentAnalysis w
       \<and> progressInterval (onDrop e (file # rest) w) = progressInterval w"
  using assms by (simp add: onDrop_def emitted_def toast_error_def emit_def)

theorem onDrop_rejects_non_video_witness:
  "\<not> startsWith (type sample_image) ''video/''
   \<and> onDrop timeout_env [sample_image] idle_world
       = idle_world\<lparr>events := [ToastError ''Please upload a video file'']\<rparr>
   \<and> filter is_request (emitted timeout_env [sample_image] idle_world) = []"
  using onDrop_rejects_non_video [of sample_image timeout_env "[]" idle_world]
  by (simp add: sample_image_def startsWith_def idle_world_def)

text \<open>
  C10. With an empty list of accepted files \<open>onDrop\<close> returns at once: the state is
  unchanged and nothing is notified or requested.
\<close>

theorem onDrop_no_file:
  "onDrop e [] w = w \<and> emitted e [] w = []"
  by (simp add: onDrop_def emitted_def)

theorem onDrop_no_file_witness:
  "onDrop ok_env [] idle_world = idle_world \<and> emitted ok_env [] idle_world = []"
  using onDrop_no_file [of ok_env idle_world] by simp



text \<open>
  C6, as stated: every result \<open>analyzeVideo\<close> resolves with, a server response or the
  fallback, has a complete report. It fails for a server that answers 200 with the
  body \<open>{}\<close>: the body is returned and published as it is.
\<close>

theorem complete_report_counterexample:
  "fst (analyzeVideo \<lparr>outcome = Resolved \<lparr>status = 200, data = JObj []\<rparr>, elapsed = 0,
                      date_now = 0, new_date = 0\<rparr> sample_video idle_world) = Resolved (JObj [])
   \<and> \<not> complete_report (JObj [])
   \<and> currentAnalysis (onDrop \<lparr>outcome = Resolved \<lparr>status = 200, data = JObj []\<rparr>, elapsed = 0,
                      date_now = 0, new_date = 0\<rparr> [sample_video] idle_world) = JObj []"
  by (simp add: analyzeVideo_value settled_value_def complete_report_def
      onDrop_accepted(5) sample_video_def startsWith_def)

text \<open>
  C6, amended: the fallback result has a complete report (the five percentage fields, a
  non-empty \<open>emotions\<close> mapping, the three feedback lists), and it is what a failed POST
  resolves with; a server response is returned as received, unchecked.
\<close>

theorem complete_report_amended:
  "complete_report (mock_data e file)
   \<and> (\<forall>err. outcome e = Rejected err \<longrightarrow> fst (analyzeVideo e file w) = Resolved (mock_data e file))
   \<and> (\<forall>response. outcome e = Resolved response \<longrightarrow>
         fst (analyzeVideo e file w) = Resolved (data response))"
  by (simp add: analyzeVideo_value settled_value_def complete_report_def mock_data_def
      mock_analysis_def present_def list_present_def)

theorem complete_report_amended_witness:
  "outcome timeout_env = Rejected Timeout
   \<and> complete_report (mock_data timeout_env sample_video)
   \<and> fst (analyzeVideo timeout_env sample_video idle_world) = Resolved (mock_data timeout_env sample_video)
   \<and> outcome ok_env = Resolved \<lparr>status = 200, data = server_body\<rparr>
   \<and> fst (analyzeVideo ok_env sample_video idle_world) = Resolved server_body"
  using complete_report_amended [of timeout_env sample_video idle_world]
    complete_report_amended [of ok_env sample_video idle_world]
  by (simp add: timeout_env_def ok_env_def)

text \<open>
  C3. In an accepted submission the progress value starts at 0, never decreases before
  the final reset, never exceeds 100, is exactly 100 when the result is published, and
  is 0 again, with the uploading flag off, when \<open>onDrop\<close> has finished.
\<close>

theorem progress_monotone:
  assumes "startsWith (type file) ''video/''"
  shows "(let ps = progress_values (emitted e (file # rest) w) in
            hd ps = 0 \<and> sorted (butlast ps) \<and> list_all (\<lambda>v. 0 \<le> v \<and> v \<le> 100) ps
            \<and> last (butlast ps) = 100 \<and> last ps = 0)
       \<and> progress_at_publication (uploadProgress w) (emitted e (file # rest) w) = [100]
       \<and> uploadProgress (onDrop e (file # rest) w) = 0
       \<and> \<not> uploading (onDrop e (file # rest) w)"
proof -
  from emitted_accepted [OF assms, of e rest w] obtain evs where evs:
    "emitted e (file # rest) w
              = [SetUploading True, SetUploadProgress 0, SetInterval 200,
                 HttpPost ''/api/v1/videos/analyze'' file] @ evs
                  @ [ClearInterval, SetUploadProgress 100,
                     ToastSuccess ''Video analyzed successfully!'',
                     OnAnalysisComplete (settled_value e file), Navigate ''/results'',
                     SetUploading False, SetUploadProgress 0]"
    "list_all (\<lambda>ev. timer_event ev \<or> ev = ConsoleError ''API Error:'') evs"
    "sorted (0 # progress_values evs)" "\<forall>v \<in> set (progress_values evs). v \<le> 90"
    by blast
  let ?vs = "progress_values evs"
  have ps: "progress_values (emitted e (file # rest) w) = 0 # ?vs @ [100, 0]"
    unfolding evs(1) by (simp add: progress_values_append)
  have bl: "butlast (0 # ?vs @ [100, 0]) = 0 # ?vs @ [100]"
    by (simp add: butlast_append)
  have lo: "\<forall>v \<in> set ?vs. 0 \<le> v" using evs(3) by simp
  have s: "sorted (0 # ?vs @ [100])"
    using evs(3,4) by (fastforce simp: sorted_append)
  have r: "list_all (\<lambda>v. 0 \<le> v \<and> v \<le> 100) (0 # ?vs @ [100, 0])"
    using lo evs(4) by (fastforce simp: list_all_iff)
  have first: "let ps = progress_values (emitted e (file # rest) w) in
            hd ps = 0 \<and> sorted (butlast ps) \<and> list_all (\<lambda>v. 0 \<le> v \<and> v \<le> 100) ps
            \<and> last (butlast ps) = 100 \<and> last ps = 0"
    unfolding ps Let_def bl using s r by simp
  let ?pre = "[SetUploading True, SetUploadProgress 0, SetInterval 200,
               HttpPost ''/api/v1/videos/analyze'' file] @ evs @ [ClearInterval]"
  let ?post = "[ToastSuccess ''Video analyzed successfully!'',
                OnAnalysisComplete (settled_value e file), Navigate ''/results'',
                SetUploading False, SetUploadProgress 0]"
  have split: "emitted e (file # rest) w = ?pre @ SetUploadProgress 100 # ?post"
    unfolding evs(1) by simp
  have quiet: "filter is_publication ?pre = []"
    by (simp add: quiet_events(1) [OF evs(2)])
  have pub: "progress_at_publication (uploadProgress w) (emitted e (file # rest) w) = [100]"
    unfolding split progress_at_publication_skip [OF quiet] by simp
  show ?thesis
    using first pub onDrop_accepted(2,3) [OF assms, of e rest w] by simp
qed

theorem progress_monotone_witness:
  "startsWith (type sample_video) ''video/''
   \<and> (let ps = progress_values (emitted timeout_env [sample_video] idle_world) in
            hd ps = 0 \<and> sorted (butlast ps) \<and> list_all (\<lambda>v. 0 \<le> v \<and> v \<le> 100) ps
            \<and> last (butlast ps) = 100 \<and> last ps = 0)
   \<and> progress_at_publication 0 (emitted timeout_env [sample_video] idle_world) = [100]
   \<and> uploadProgress (onDrop timeout_env [sample_video] idle_world) = 0
   \<and> \<not> uploading (onDrop timeout_env [sample_video] idle_world)"
proof -
  have a: "startsWith (type sample_video) ''video/''"
    by (simp add: sample_video_def startsWith_def)
  have b: "uploadProgress idle_world = 0" by (simp add: idle_world_def)
  from progress_monotone [OF a, of timeout_env "[]" idle_world] a show ?thesis
    unfolding b by blast
qed

text \<open>
  C4. An accepted submission publishes exactly once: \<open>onAnalysisComplete\<close> is called once,
  with the value \<open>analyzeVideo\<close> resolved with, next to one success toast (and no other
  toast) and one navigation to the results view.
\<close>

theorem single_publication:
  assumes "startsWith (type file) ''video/''"
  shows "\<exists>result. fst (analyzeVideo e file w) = Resolved result
           \<and> filter is_publication (emitted e (file # rest) w) = [OnAnalysisComplete result]
           \<and> filter is_toast (emitted e (file # rest) w)
               = [ToastSuccess ''Video analyzed successfully!'']
           \<and> filter is_navigation (emitted e (file # rest) w) = [Navigate ''/results'']
           \<and> currentAnalysis (onDrop e (file # rest) w) = result"
proof -
  from emitted_accepted [OF assms, of e rest w] obtain evs where evs:
    "emitted e (file # rest) w
              = [SetUploading True, SetUploadProgress 0, SetInterval 200,
                 HttpPost ''/api/v1/videos/analyze'' file] @ evs
                  @ [ClearInterval, SetUploadProgress 100,
                     ToastSuccess ''Video analyzed successfully!'',
                     OnAnalysisComplete (settled_value e file), Navigate ''/results'',
                     SetUploading False, SetUploadProgress 0]"
    "list_all (\<lambda>ev. timer_event ev \<or> ev = ConsoleError ''API Error:'') evs"
    by blast
  note q = quiet_events [OF evs(2)]
  have "filter is_publication (emitted e (file # rest) w)
          = [OnAnalysisComplete (settled_value e file)]"
    unfolding evs(1) by (simp add: q)
  moreover have "filter is_toast (emitted e (file # rest) w)
          = [ToastSuccess ''Video analyzed successfully!'']"
    unfolding evs(1) by (simp add: q)
  moreover have "filter is_navigation (emitted e (file # rest) w) = [Navigate ''/results'']"
    unfolding evs(1) by (simp add: q)
  ultimately show ?thesis
    using analyzeVideo_value [of e "file" w] onDrop_accepted(5) [OF assms, of e rest w]
    by simp
qed

theorem single_publication_witness:
  "startsWith (type sample_video) ''video/''
   \<and> (\<exists>result. fst (analyzeVideo timeout_env sample_video idle_world) = Resolved result
           \<and> filter is_publication (emitted timeout_env [sample_video] idle_world)
               = [OnAnalysisComplete result]
           \<and> filter is_toast (emitted timeout_env [sample_video] idle_world)
               = [ToastSuccess ''Video analyzed successfully!'']
           \<and> filter is_navigation (emitted timeout_env [sample_video] idle_world)
               = [Navigate ''/results'']
           \<and> currentAnalysis (onDrop timeout_env [sample_video] idle_world) = result)"
proof -
  have a: "startsWith (type sample_video) ''video/''"
    by (simp add: sample_video_def startsWith_def)
  from single_publication [OF a, of timeout_env idle_world "[]"] a show ?thesis by blast
qed

text \<open>
  C5. In every accepted submission, however the request settles, the interval is cleared
  as soon as the call has settled: before the publication and before the uploading flag
  is switched off. No tick is logged after that, the interval is not scheduled when
  \<open>onDrop\<close> has finished, and no later period of the timer changes anything.
\<close>

theorem interval_cleared:
  assumes "startsWith (type file) ''video/''"
  shows "\<not> progressInterval (onDrop e (file # rest) w)
       \<and> (\<forall>n. run_timers n (onDrop e (file # rest) w) = onDrop e (file # rest) w)
       \<and> (\<exists>before after. emitted e (file # rest) w = before @ ClearInterval # after
            \<and> filter is_publication before = []
            \<and> SetUploading False \<notin> set before
            \<and> SetUploading False \<in> set after
            \<and> Tick \<notin> set after)"
proof -
  from emitted_accepted [OF assms, of e rest w] obtain evs where evs:
    "emitted e (file # rest) w
              = [SetUploading True, SetUploadProgress 0, SetInterval 200,
                 HttpPost ''/api/v1/videos/analyze'' file] @ evs
                  @ [ClearInterval, SetUploadProgress 100,
                     ToastSuccess ''Video analyzed successfully!'',
                     OnAnalysisComplete (settled_value e file), Navigate ''/results'',
                     SetUploading False, SetUploadProgress 0]"
    "list_all (\<lambda>ev. timer_event ev \<or> ev = ConsoleError ''API Error:'') evs"
    by blast
  let ?before = "[SetUploading True, SetUploadProgress 0, SetInterval 200,
                  HttpPost ''/api/v1/videos/analyze'' file] @ evs"
  let ?after = "[SetUploadProgress 100, ToastSuccess ''Video analyzed successfully!'',
                 OnAnalysisComplete (settled_value e file), Navigate ''/results'',
                 SetUploading False, SetUploadProgress 0]"
  have 1: "emitted e (file # rest) w = ?before @ ClearInterval # ?after"
    unfolding evs(1) by simp
  have 2: "filter is_publication ?before = []"
    by (simp add: quiet_events(1) [OF evs(2)])
  have 3: "SetUploading False \<notin> set ?before"
    using quiet_events(5) [OF evs(2), of False] by simp
  have 4: "SetUploading False \<in> set ?after" "Tick \<notin> set ?after" by simp_all
  have off: "\<not> progressInterval (onDrop e (file # rest) w)"
    using onDrop_accepted(4) [OF assms, of e rest w] by simp
  have "\<forall>n. run_timers n (onDrop e (file # rest) w) = onDrop e (file # rest) w"
    using run_timers_idle [OF off] by simp
  with off 1 2 3 4 show ?thesis by blast
qed

theorem interval_cleared_witness:
  "startsWith (type sample_video) ''video/''
   \<and> \<not> progressInterval (onDrop ok_env [sample_video] idle_world)
   \<and> run_timers 5 (onDrop ok_env [sample_video] idle_world) = onDrop ok_env [sample_video] idle_world
   \<and> (\<exists>before after. emitted ok_env [sample_video] idle_world = before @ ClearInterval # after
            \<and> filter is_publication before = []
            \<and> SetUploading False \<notin> set before
            \<and> SetUploading False \<in> set after
            \<and> Tick \<notin> set after)"
proof -
  have a: "startsWith (type sample_video) ''video/''"
    by (simp add: sample_video_def startsWith_def)
  from interval_cleared [OF a, of ok_env "[]" idle_world] a show ?thesis by blast
qed

text \<open>
  C7. When the POST resolves (a 2xx answer with a JSON body), an accepted submission
  publishes exactly that body: it is the one value passed to \<open>onAnalysisComplete\<close> and the
  content of the current-analysis slot, with the \<open>createdAt\<close> the service supplied.
\<close>

theorem publishes_server_body:
  assumes "startsWith (type file) ''video/''" and "outcome e = Resolved response"
  shows "currentAnalysis (onDrop e (file # rest) w) = data response
       \<and> filter is_publication (emitted e (file # rest) w) = [OnAnalysisComplete (data response)]
       \<and> (\<forall>k. field k (currentAnalysis (onDrop e (file # rest) w)) = field k (data response))"
proof -
  have v: "settled_value e file = data response"
    using assms(2) by (simp add: settled_value_def)
  from emitted_accepted [OF assms(1), of e rest w] obtain evs where evs:
    "emitted e (file # rest) w
              = [SetUploading True, SetUploadProgress 0, SetInterval 200,
                 HttpPost ''/api/v1/videos/analyze'' file] @ evs
                  @ [ClearInterval, SetUploadProgress 100,
                     ToastSuccess ''Video analyzed successfully!'',
                     OnAnalysisComplete (settled_value e file), Navigate ''/results'',
                     SetUploading False, SetUploadProgress 0]"
    "list_all (\<lambda>ev. timer_event ev \<or> ev = ConsoleError ''API Error:'') evs"
    by blast
  have "filter is_publication (emitted e (file # rest) w) = [OnAnalysisComplete (data response)]"
    unfolding evs(1) by (simp add: quiet_events [OF evs(2)] v)
  then show ?thesis
    using onDrop_accepted(5) [OF assms(1), of e rest w] v by simp
qed

theorem publishes_server_body_witness:
  "startsWith (type sample_video) ''video/''
   \<and> outcome ok_env = Resolved \<lparr>status = 200, data = server_body\<rparr>
   \<and> currentAnalysis (onDrop ok_env [sample_video] idle_world) = server_body
   \<and> filter is_publication (emitted ok_env [sample_video] idle_world)
       = [OnAnalysisComplete server_body]
   \<and> field ''createdAt'' (currentAnalysis (onDrop ok_env [sample_video] idle_world))
       = Some (JStr ''2024-05-06T07:08:09.000Z'')"
proof -
  have a: "startsWith (type sample_video) ''video/''"
    by (simp add: sample_video_def startsWith_def)
  have b: "outcome ok_env = Resolved \<lparr>status = 200, data = server_body\<rparr>"
    by (simp add: ok_env_def)
  from publishes_server_body [OF a b, of "[]" idle_world] a b show ?thesis
    by (simp add: server_body_def)
qed

text \<open>
  C8, as stated: two failing calls with the same file yield results equal in every
  field, \<open>id\<close> and \<open>created_at\<close> included. It fails for two calls at different times: \<open>id\<close>
  is \<open>Date.now().toString()\<close> and \<open>created_at\<close> is \<open>new Date().toISOString()\<close>.
\<close>

theorem fallback_deterministic_counterexample:
  "outcome timeout_env = Rejected Timeout \<and> outcome later_env = Rejected Timeout
   \<and> fst (analyzeVideo timeout_env sample_video idle_world)
       \<noteq> fst (analyzeVideo later_env sample_video idle_world)"
proof -
  have a: "toString 1700000000000 = ''1700000000000''" by code_simp
  have b: "toString 1700000086400 = ''1700000086400''" by code_simp
  show ?thesis
    by (simp add: analyzeVideo_value settled_value_def mock_data_def timeout_env_def
        later_env_def a b)
qed

text \<open>
  C8, amended: two failing calls with the same file yield results equal in \<open>filename\<close>,
  in the whole \<open>analysis\<close> report and in every field other than \<open>id\<close> and \<open>created_at\<close>.
  \<open>id\<close> is the decimal rendering of the \<open>Date.now()\<close> reading and \<open>created_at\<close> the ISO
  rendering of the \<open>new Date()\<close> reading, so the two results are identical when both
  readings coincide, differ whenever the \<open>Date.now()\<close> readings differ, and are identical
  exactly when the \<open>Date.now()\<close> readings are equal and the \<open>created_at\<close> strings are.
\<close>

theorem fallback_deterministic_amended:
  assumes "outcome e1 = Rejected err1" and "outcome e2 = Rejected err2"
  shows "\<exists>r1 r2. fst (analyzeVideo e1 file w1) = Resolved r1
           \<and> fst (analyzeVideo e2 file w2) = Resolved r2
           \<and> field ''filename'' r1 = field ''filename'' r2
           \<and> field ''analysis'' r1 = field ''analysis'' r2
           \<and> (\<forall>k. k \<noteq> ''id'' \<longrightarrow> k \<noteq> ''created_at'' \<longrightarrow> field k r1 = field k r2)
           \<and> field ''id'' r1 = Some (JStr (toString (date_now e1)))
           \<and> field ''created_at'' r1 = Some (JStr (toISOString (new_date e1)))
           \<and> (date_now e1 = date_now e2 \<longrightarrow> new_date e1 = new_date e2 \<longrightarrow> r1 = r2)
           \<and> (date_now e1 \<noteq> date_now e2 \<longrightarrow> r1 \<noteq> r2)
           \<and> (r1 = r2 \<longleftrightarrow> date_now e1 = date_now e2
                   \<and> toISOString (new_date e1) = toISOString (new_date e2))"
proof -
  have inj: "toString (date_now e1) = toString (date_now e2) \<longleftrightarrow> date_now e1 = date_now e2"
    using toString_inj [of "date_now e1" "date_now e2"] by auto
  show ?thesis
    using assms by (auto simp add: analyzeVideo_value settled_value_def mock_data_def inj)
qed

theorem fallback_deterministic_amended_witness:
  "outcome timeout_env = Rejected Timeout \<and> outcome later_env = Rejected Timeout
   \<and> date_now timeout_env \<noteq> date_now later_env
   \<and> (\<exists>r1 r2. fst (analyzeVideo timeout_env sample_video idle_world) = Resolved r1
           \<and> fst (analyzeVideo later_env sample_video idle_world) = Resolved r2
           \<and> field ''filename'' r1 = field ''filename'' r2
           \<and> field ''analysis'' r1 = field ''analysis'' r2
           \<and> field ''id'' r1 = Some (JStr (toString 1700000000000))
           \<and> field ''created_at'' r1 = Some (JStr (toISOString 1700000000001))
           \<and> r1 \<noteq> r2)"
proof -
  have a: "outcome timeout_env = Rejected Timeout" by (simp add: timeout_env_def)
  have b: "outcome later_env = Rejected Timeout" by (simp add: later_env_def)
  have c: "date_now timeout_env = 1700000000000" "new_date timeout_env = 1700000000001"
    by (simp_all add: timeout_env_def)
  have d: "date_now timeout_env \<noteq> date_now later_env"
    by (simp add: timeout_env_def later_env_def)
  from fallback_deterministic_amended [OF a b, of sample_video idle_world idle_world] a b d
  show ?thesis unfolding c by blast
qed

end
